theory Spec2Isabelle
  imports Complex_Main
begin

section \<open>Data model\<close>

text \<open>
  Documents of the three collections, as the Mongoose schemas of
  \<^verbatim>\<open>models/User.js\<close>, \<^verbatim>\<open>models/Instance.js\<close> and the Affiliate model declare them,
  restricted to the fields that the subscription, reconciliation and payment code reads
  or writes. An \<^verbatim>\<open>ObjectId\<close> is a natural number, a \<^verbatim>\<open>Date\<close> is its number of
  milliseconds since the epoch, a JavaScript \<^verbatim>\<open>Number\<close> that holds a count is an
  \<open>int\<close>, and one that holds money is a \<open>rat\<close>, the exact value of the double.
  Double arithmetic rounds: the result of an operation is the rounding of the exact
  result. The functions that compute with money take the rounding as a parameter
  \<open>fl\<close>, of which nothing is assumed, and apply it at every operation of the source
  (overflow is not modelled, and an amount is a number, not a string). A decimal literal
  of the source is written as its decimal value.
  Every \<^verbatim>\<open>new Date()\<close> / \<^verbatim>\<open>Date.now()\<close> of one operation reads the same
  explicit clock value \<open>now\<close>.

  The code also assigns a few paths that the schemas do not declare:
  \<^verbatim>\<open>subscription.lastPaymentDate\<close>, \<^verbatim>\<open>subscription.expiredAt\<close> and
  \<^verbatim>\<open>subscription.payments\<close> of a user, the \<^verbatim>\<open>metadata\<close> audit fields of an instance
  (\<^verbatim>\<open>disabledAt\<close>, \<^verbatim>\<open>disabledReason\<close>, \<^verbatim>\<open>enabledAt\<close>, \<^verbatim>\<open>enabledReason\<close>), and
  \<^verbatim>\<open>firstPaymentDate\<close>, \<^verbatim>\<open>lastPaymentDate\<close> and \<^verbatim>\<open>transactionId\<close> of a referral.
  Mongoose does not write an undeclared path to the store, and none of the code below
  reads one back, so the records do not have these paths and the functions leave the
  assignments out; the text at each function names the ones it leaves out.
\<close>

type_synonym objectId = nat
type_synonym date = int

datatype plan = Free | Starter | Pro

datatype sub_status = Trial | Active | Expired | Cancelled

datatype affiliate_status = NotAffiliate | AffPending | AffActive | AffSuspended

record subscription =
  plan :: plan
  status :: sub_status
  maxInstances :: "int option"
  price :: rat
  trialEndsAt :: date
  nextBillingDate :: "date option"

record user =
  user_id :: objectId
  referredBy :: "objectId option"
  affiliateStatus :: affiliate_status
  activeReferrals :: int
  subscription :: subscription

text \<open>
  The values that the code assigns to \<^verbatim>\<open>instance.status\<close>. The schema's enum
  (\<^verbatim>\<open>models/Instance.js\<close>, lines 20-24) lists five of them.
\<close>

datatype inst_status = Deploying | Running | Stopped | Error | Deleting | Disabled

definition instance_status_enum :: "inst_status list" where
  "instance_status_enum = [Deploying, Running, Stopped, Error, Deleting]"

record instanceDoc =
  inst_id :: objectId
  userId :: objectId
  inst_status :: inst_status
  deletedAt :: "date option"

datatype referral_status = RefPending | RefActive | RefCancelled

text \<open>
  A transaction id is the string of the payment event, or the template string
  \<^verbatim>\<open>sub_${user._id}_${Date.now()}\<close> of the conversion route, kept symbolic.
\<close>

datatype transaction_id = TxnString string | TxnGenerated objectId date

record referral =
  ref_user :: objectId
  lifetimeValue :: rat
  commissionEarned :: rat
  ref_status :: referral_status

record affiliate =
  aff_user :: objectId
  totalEarnings :: rat
  pendingEarnings :: rat
  referrals :: "referral list"

record db =
  users :: "user list"
  instances :: "instanceDoc list"
  affiliates :: "affiliate list"

datatype error = ValidationError | NotFoundError

section \<open>Collections\<close>

text \<open>
  A collection is the list of its documents. \<open>findBy key k\<close> is \<^verbatim>\<open>findById\<close> /
  \<^verbatim>\<open>findOne\<close> on the key field; \<open>save_doc key d\<close> is the write of \<^verbatim>\<open>d.save()\<close>:
  it replaces the stored document with the key of \<open>d\<close>, or inserts \<open>d\<close> when there
  is none. (The whole document is written. Mongoose writes the modified paths only; the
  two agree unless two in-memory copies of one document are saved by one operation.)
\<close>

definition findBy :: "('a \<Rightarrow> objectId) \<Rightarrow> objectId \<Rightarrow> 'a list \<Rightarrow> 'a option" where
  "findBy key k xs = find (\<lambda>x. key x = k) xs"

definition save_doc :: "('a \<Rightarrow> objectId) \<Rightarrow> 'a \<Rightarrow> 'a list \<Rightarrow> 'a list" where
  "save_doc key d xs =
     (if findBy key (key d) xs = None then xs @ [d]
      else map (\<lambda>x. if key x = key d then d else x) xs)"

text \<open>
  \<^verbatim>\<open>instance.save()\<close> validates the document against the schema first; the enum
  validator of \<^verbatim>\<open>status\<close> rejects a value outside \<open>instance_status_enum\<close> and the
  promise rejects with a validation error, nothing being written.
\<close>

definition instance_validate :: "instanceDoc \<Rightarrow> bool" where
  "instance_validate i \<longleftrightarrow> inst_status i \<in> set instance_status_enum"

definition instance_save :: "instanceDoc \<Rightarrow> instanceDoc list \<Rightarrow> error + instanceDoc list" where
  "instance_save i store =
     (if instance_validate i then Inr (save_doc inst_id i store) else Inl ValidationError)"

section \<open>Subscription entitlement (models/User.js)\<close>

definition isTrialActive :: "user \<Rightarrow> date \<Rightarrow> bool" where
  "isTrialActive u now \<longleftrightarrow>
     status (subscription u) = Trial \<and> now < trialEndsAt (subscription u)"

definition isSubscriptionActive :: "user \<Rightarrow> date \<Rightarrow> bool" where
  "isSubscriptionActive u now \<longleftrightarrow>
     status (subscription u) = Active \<or> isTrialActive u now"

text \<open>
  The table \<^verbatim>\<open>planLimits\<close> of \<^verbatim>\<open>getMaxInstances\<close>. The three plans of the schema's
  enum are its keys and none of its values is falsy, so the \<^verbatim>\<open>|| 0\<close> after the
  lookup never applies.
\<close>

definition planLimits :: "plan \<Rightarrow> int" where
  "planLimits p = (case p of Free \<Rightarrow> 1 | Starter \<Rightarrow> 1 | Pro \<Rightarrow> - 1)"

definition getMaxInstances :: "user \<Rightarrow> date \<Rightarrow> int" where
  "getMaxInstances u now =
     (if \<not> isSubscriptionActive u now then 0
      else (case maxInstances (subscription u) of
              Some m \<Rightarrow> m
            | None \<Rightarrow> planLimits (plan (subscription u))))"

text \<open>
  \<^verbatim>\<open>Instance.countDocuments({ userId, deletedAt: null })\<close>, the query of
  \<^verbatim>\<open>canCreateInstance\<close>, and
  \<^verbatim>\<open>Instance.countDocuments({ userId, deletedAt: null, status: { $nin: ['deleting', 'error'] } })\<close>,
  the query of \<^verbatim>\<open>checkInstanceLimit\<close> in \<^verbatim>\<open>middleware/auth.js\<close>.
\<close>

definition countNotDeleted :: "objectId \<Rightarrow> instanceDoc list \<Rightarrow> int" where
  "countNotDeleted uid insts =
     int (length (filter (\<lambda>i. userId i = uid \<and> deletedAt i = None) insts))"

definition countLiveNonTerminal :: "objectId \<Rightarrow> instanceDoc list \<Rightarrow> int" where
  "countLiveNonTerminal uid insts =
     int (length (filter (\<lambda>i. userId i = uid \<and> deletedAt i = None
                              \<and> inst_status i \<notin> {Deleting, Error}) insts))"

definition canCreateInstance :: "user \<Rightarrow> date \<Rightarrow> instanceDoc list \<Rightarrow> bool" where
  "canCreateInstance u now insts =
     (if \<not> isSubscriptionActive u now then False
      else (let maxI = getMaxInstances u now in
            if maxI = - 1 then True
            else countNotDeleted (user_id u) insts < maxI))"

text \<open>
  \<^verbatim>\<open>upgradeToPro\<close> assigns three fields and saves the document; the result is the
  document in memory and the collection after the save.
\<close>

definition upgradeToPro :: "user \<Rightarrow> user list \<Rightarrow> user \<times> user list" where
  "upgradeToPro u store =
     (let u' = u\<lparr>subscription := (subscription u)\<lparr>plan := Pro, maxInstances := Some (- 1),
                                                    price := 1999 / 100\<rparr>\<rparr>
      in (u', save_doc user_id u' store))"

datatype limit_response =
    Next
  | SubscriptionExpired sub_status bool
  | LimitReached int int

text \<open>
  \<^verbatim>\<open>checkInstanceLimit\<close>: \<open>LimitReached currentCount maxAllowed\<close> is the 403 response
  of lines 64-80, \<open>SubscriptionExpired\<close> the one of lines 54-60.
\<close>

definition checkInstanceLimit :: "user \<Rightarrow> date \<Rightarrow> instanceDoc list \<Rightarrow> limit_response" where
  "checkInstanceLimit u now insts =
     (if \<not> isSubscriptionActive u now
      then SubscriptionExpired (status (subscription u)) (\<not> isTrialActive u now)
      else if \<not> canCreateInstance u now insts
      then LimitReached (countLiveNonTerminal (user_id u) insts) (getMaxInstances u now)
      else Next)"

section \<open>Trial reconciliation (services/trialService.js)\<close>

text \<open>
  The Deployment Gateway is an oracle: \<open>gw i\<close> is the \<^verbatim>\<open>success\<close> flag of the result
  of the call issued while the loop is at the instance with id \<open>i\<close> (the call itself
  carries the user id only). The loops return the exception that left them, if any,
  and the collection as written so far. Lines 69-70 and 115-116 assign
  \<^verbatim>\<open>metadata.disabledAt\<close>, \<^verbatim>\<open>metadata.disabledReason\<close>, \<^verbatim>\<open>metadata.enabledAt\<close> and
  \<^verbatim>\<open>metadata.enabledReason\<close>, which the schema does not declare; \<open>now\<close> is the clock
  value they would hold.
\<close>

definition expiryCandidates :: "objectId \<Rightarrow> instanceDoc list \<Rightarrow> instanceDoc list" where
  "expiryCandidates uid insts =
     filter (\<lambda>i. userId i = uid \<and> deletedAt i = None
                 \<and> inst_status i \<notin> {Deleting, Error}) insts"

fun disableEach ::
  "(objectId \<Rightarrow> bool) \<Rightarrow> date \<Rightarrow> instanceDoc list \<Rightarrow> instanceDoc list
     \<Rightarrow> error option \<times> instanceDoc list" where
  "disableEach gw now [] store = (None, store)"
| "disableEach gw now (i # rest) store =
     (if gw (inst_id i) then
        (case instance_save (i\<lparr>inst_status := Disabled\<rparr>) store of
           Inl e \<Rightarrow> (Some e, store)
         | Inr store' \<Rightarrow> disableEach gw now rest store')
      else disableEach gw now rest store)"

text \<open>
  \<^verbatim>\<open>handleExpiredTrial\<close>: an exception of the loop is caught by the \<^verbatim>\<open>catch\<close> of
  line 85, which logs it and returns, so the statements of lines 80-82 are skipped.
  Line 81 assigns \<^verbatim>\<open>subscription.expiredAt\<close>, which the schema does not declare.
\<close>

definition handleExpiredTrial :: "(objectId \<Rightarrow> bool) \<Rightarrow> date \<Rightarrow> db \<Rightarrow> user \<Rightarrow> db" where
  "handleExpiredTrial gw now d u =
     (case disableEach gw now (expiryCandidates (user_id u) (instances d)) (instances d) of
        (Some e, store) \<Rightarrow> d\<lparr>instances := store\<rparr>
      | (None, store) \<Rightarrow>
          (let u' = u\<lparr>subscription := (subscription u)\<lparr>status := Expired\<rparr>\<rparr>
           in d\<lparr>instances := store, users := save_doc user_id u' (users d)\<rparr>))"

definition expiredTrialUsers :: "date \<Rightarrow> user list \<Rightarrow> user list" where
  "expiredTrialUsers now us =
     filter (\<lambda>u. status (subscription u) = Trial \<and> trialEndsAt (subscription u) < now) us"

definition checkExpiredTrials :: "(objectId \<Rightarrow> bool) \<Rightarrow> date \<Rightarrow> db \<Rightarrow> db" where
  "checkExpiredTrials gw now d =
     fold (\<lambda>u acc. handleExpiredTrial gw now acc u) (expiredTrialUsers now (users d)) d"

definition disabledInstances :: "objectId \<Rightarrow> instanceDoc list \<Rightarrow> instanceDoc list" where
  "disabledInstances uid insts =
     filter (\<lambda>i. userId i = uid \<and> deletedAt i = None \<and> inst_status i = Disabled) insts"

fun enableEach ::
  "(objectId \<Rightarrow> bool) \<Rightarrow> date \<Rightarrow> instanceDoc list \<Rightarrow> instanceDoc list
     \<Rightarrow> error option \<times> instanceDoc list" where
  "enableEach gw now [] store = (None, store)"
| "enableEach gw now (i # rest) store =
     (if gw (inst_id i) then
        (case instance_save (i\<lparr>inst_status := Running\<rparr>) store of
           Inl e \<Rightarrow> (Some e, store)
         | Inr store' \<Rightarrow> enableEach gw now rest store')
      else enableEach gw now rest store)"

datatype enable_result = EnableSuccess nat | EnableFailure

definition enableUserInstances ::
  "(objectId \<Rightarrow> bool) \<Rightarrow> date \<Rightarrow> db \<Rightarrow> objectId \<Rightarrow> enable_result \<times> db" where
  "enableUserInstances gw now d uid =
     (case findBy user_id uid (users d) of
        None \<Rightarrow> (EnableFailure, d)
      | Some u \<Rightarrow>
          (let found = disabledInstances uid (instances d) in
           case enableEach gw now found (instances d) of
             (Some e, store) \<Rightarrow> (EnableFailure, d\<lparr>instances := store\<rparr>)
           | (None, store) \<Rightarrow> (EnableSuccess (length found), d\<lparr>instances := store\<rparr>)))"

section \<open>Payment and commission processing (services/trialService.js, lines 140-514)\<close>

text \<open>
  The writes of this section can fail in the store (the spec's persistence failure), which
  the model takes from the environment: \<open>fails w\<close> says that the write \<open>w\<close> throws.
  \<open>StartPaidSave\<close> and \<open>UserSave\<close> are the two saves of the paying user, which
  run in the session of the transaction (the document was loaded with
  \<^verbatim>\<open>.session(session)\<close>); they reach the store at \<^verbatim>\<open>commitTransaction\<close> and not at
  all after \<^verbatim>\<open>abortTransaction\<close>. The writes of \<^verbatim>\<open>processAffiliateCommission\<close>
  name no session and reach the store at once. Reads do not fail.
\<close>

datatype write_op = ReferrerSave | AffiliateSave | StartPaidSave | UserSave

record commission_result =
  cr_referrerId :: objectId
  cr_commission :: rat
  cr_transactionId :: transaction_id

definition hasAffiliateAccess :: "user \<Rightarrow> bool" where
  "hasAffiliateAccess u \<longleftrightarrow> affiliateStatus u = AffActive"

definition thirtyDays :: int where
  "thirtyDays = 30 * 24 * 60 * 60 * 1000"

fun updateFirst :: "('a \<Rightarrow> bool) \<Rightarrow> ('a \<Rightarrow> 'a) \<Rightarrow> 'a list \<Rightarrow> 'a list" where
  "updateFirst P f [] = []"
| "updateFirst P f (x # xs) = (if P x then f x # xs else x # updateFirst P f xs)"

text \<open>
  Lines 227-267 of \<^verbatim>\<open>processAffiliateCommission\<close>, once the affiliate record is at
  hand. The commission is \<^verbatim>\<open>(amount * 20) / 100\<close>, two double operations, and every
  \<^verbatim>\<open>+=\<close> is one more. The earnings are raised on every call; the transaction id is
  returned in the result and compared with nothing. The assignments of
  \<^verbatim>\<open>firstPaymentDate\<close>, \<^verbatim>\<open>lastPaymentDate\<close> and \<^verbatim>\<open>transactionId\<close> to a referral are
  left out: the schema of a referral does not declare them.
\<close>

definition applyCommission ::
  "(write_op \<Rightarrow> bool) \<Rightarrow> (rat \<Rightarrow> rat) \<Rightarrow> db \<Rightarrow> user \<Rightarrow> user \<Rightarrow> affiliate \<Rightarrow> rat
     \<Rightarrow> transaction_id \<Rightarrow> commission_result option \<times> db" where
  "applyCommission fails fl d u referrer aff amount txn =
     (let commission = fl (fl (amount * 20) / 100);
          aff1 = aff\<lparr>totalEarnings := fl (totalEarnings aff + commission),
                     pendingEarnings := fl (pendingEarnings aff + commission)\<rparr>;
          result = \<lparr>cr_referrerId = user_id referrer, cr_commission = commission,
                    cr_transactionId = txn\<rparr>
      in if find (\<lambda>r. ref_user r = user_id u) (referrals aff1) \<noteq> None then
           (let aff2 = aff1\<lparr>referrals :=
                         updateFirst (\<lambda>r. ref_user r = user_id u)
                           (\<lambda>r. r\<lparr>lifetimeValue := fl (lifetimeValue r + amount),
                                   commissionEarned := fl (commissionEarned r + commission),
                                   ref_status := RefActive\<rparr>)
                           (referrals aff1)\<rparr>
            in if fails AffiliateSave then (None, d)
               else (Some result, d\<lparr>affiliates := save_doc aff_user aff2 (affiliates d)\<rparr>))
         else
           (let aff2 = aff1\<lparr>referrals := referrals aff1 @
                         [\<lparr>ref_user = user_id u, lifetimeValue = amount,
                           commissionEarned = commission, ref_status = RefActive\<rparr>]\<rparr>;
                referrer' = referrer\<lparr>activeReferrals := activeReferrals referrer + 1\<rparr>
            in if fails ReferrerSave then (None, d)
               else (let d1 = d\<lparr>users := save_doc user_id referrer' (users d)\<rparr>
                     in if fails AffiliateSave then (None, d1)
                        else (Some result,
                              d1\<lparr>affiliates := save_doc aff_user aff2 (affiliates d1)\<rparr>))))"

text \<open>
  \<^verbatim>\<open>processAffiliateCommission\<close>: every exception is caught by the \<^verbatim>\<open>catch\<close> of line
  268 and turned into the result \<^verbatim>\<open>null\<close>; what was written before it stays written.

  When the referrer has no affiliate record, lines 218-224 build one without a
  \<^verbatim>\<open>referralCode\<close> and save it. The Affiliate schema requires that path and generates
  it in a \<^verbatim>\<open>pre('save')\<close> hook only, which Mongoose runs after the validation of the
  save; so this save is rejected, nothing is written, and the result is \<^verbatim>\<open>null\<close>.
\<close>

definition processAffiliateCommission ::
  "(write_op \<Rightarrow> bool) \<Rightarrow> (rat \<Rightarrow> rat) \<Rightarrow> db \<Rightarrow> user \<Rightarrow> rat \<Rightarrow> transaction_id
     \<Rightarrow> commission_result option \<times> db" where
  "processAffiliateCommission fails fl d u amount txn =
     (case referredBy u of
        None \<Rightarrow> (None, d)
      | Some rid \<Rightarrow>
          (case findBy user_id rid (users d) of
             None \<Rightarrow> (None, d)
           | Some referrer \<Rightarrow>
               if \<not> hasAffiliateAccess referrer then (None, d)
               else (case findBy aff_user (user_id referrer) (affiliates d) of
                       Some aff \<Rightarrow> applyCommission fails fl d u referrer aff amount txn
                     | None \<Rightarrow> (None, d))))"

record payment_event =
  ev_userId :: "objectId option"
  ev_amount :: "rat option"
  ev_transactionId :: "string option"

datatype payment_response =
    PaymentOk bool rat
  | MissingFields
  | UserNotFound
  | NoActiveTrial
  | PaymentError

text \<open>
  \<^verbatim>\<open>POST /webhook/payment\<close>. \<open>PaymentOk p c\<close> is the 200 response with
  \<^verbatim>\<open>commissionProcessed\<close> \<open>p\<close> and \<^verbatim>\<open>commissionAmount\<close> \<open>c\<close>; \<open>PaymentError\<close> is
  the 500 response of the \<^verbatim>\<open>catch\<close>, after \<^verbatim>\<open>abortTransaction\<close>. The assignment of
  \<^verbatim>\<open>subscription.lastPaymentDate\<close> (line 445) is left out: the schema does not declare
  the path.
\<close>

definition webhook_payment ::
  "(write_op \<Rightarrow> bool) \<Rightarrow> (rat \<Rightarrow> rat) \<Rightarrow> date \<Rightarrow> db \<Rightarrow> payment_event
     \<Rightarrow> payment_response \<times> db" where
  "webhook_payment fails fl now d ev =
     (case (ev_userId ev, ev_amount ev, ev_transactionId ev) of
        (Some uid, Some amount, Some txn) \<Rightarrow>
          if amount = 0 \<or> txn = [] then (MissingFields, d)
          else (case findBy user_id uid (users d) of
                  None \<Rightarrow> (UserNotFound, d)
                | Some u \<Rightarrow>
                    (let u1 = u\<lparr>subscription := (subscription u)
                                  \<lparr>nextBillingDate := Some (now + thirtyDays)\<rparr>\<rparr>;
                         (cr, d1) = (if referredBy u1 \<noteq> None
                                     then processAffiliateCommission fails fl d u1 amount
                                            (TxnString txn)
                                     else (None, d))
                     in if fails UserSave then (PaymentError, d1)
                        else (PaymentOk (cr \<noteq> None)
                                (case cr of Some r \<Rightarrow> cr_commission r | None \<Rightarrow> 0),
                              d1\<lparr>users := save_doc user_id u1 (users d1)\<rparr>)))
      | _ \<Rightarrow> (MissingFields, d))"

text \<open>
  \<^verbatim>\<open>POST /convert-to-paid\<close> for the authenticated user \<open>uid\<close>. The save inside
  \<^verbatim>\<open>startPaidSubscription\<close> and the final save are both in the transaction.
\<close>

definition convert_to_paid ::
  "(write_op \<Rightarrow> bool) \<Rightarrow> (rat \<Rightarrow> rat) \<Rightarrow> date \<Rightarrow> db \<Rightarrow> objectId
     \<Rightarrow> payment_response \<times> db" where
  "convert_to_paid fails fl now d uid =
     (case findBy user_id uid (users d) of
        None \<Rightarrow> (UserNotFound, d)
      | Some u \<Rightarrow>
          if status (subscription u) \<noteq> Trial then (NoActiveTrial, d)
          else if fails StartPaidSave then (PaymentError, d)
          else (let u1 = u\<lparr>subscription := (subscription u)
                              \<lparr>status := Active,
                               nextBillingDate := Some (now + thirtyDays)\<rparr>\<rparr>;
                    (cr, d1) = (if referredBy u1 \<noteq> None
                                then processAffiliateCommission fails fl d u1
                                       (price (subscription u1)) (TxnGenerated (user_id u1) now)
                                else (None, d))
                in if fails UserSave then (PaymentError, d1)
                   else (PaymentOk (cr \<noteq> None)
                           (case cr of Some r \<Rightarrow> cr_commission r | None \<Rightarrow> 0),
                         d1\<lparr>users := save_doc user_id u1 (users d1)\<rparr>)))"

datatype upgrade_response = UpgradeOk sub_status int | UpgradeUserNotFound | AlreadyPro

text \<open>
  \<^verbatim>\<open>POST /upgrade-to-pro\<close> for the authenticated user \<open>uid\<close>; \<open>UpgradeOk s m\<close> is the
  200 response with \<^verbatim>\<open>subscription.status\<close> \<open>s\<close> and \<^verbatim>\<open>maxInstances\<close> \<open>m\<close>.
\<close>

definition upgrade_to_pro :: "date \<Rightarrow> db \<Rightarrow> objectId \<Rightarrow> upgrade_response \<times> db" where
  "upgrade_to_pro now d uid =
     (case findBy user_id uid (users d) of
        None \<Rightarrow> (UpgradeUserNotFound, d)
      | Some u \<Rightarrow>
          if plan (subscription u) = Pro then (AlreadyPro, d)
          else (let (u', us) = upgradeToPro u (users d)
                in (UpgradeOk (status (subscription u')) (getMaxInstances u' now),
                    d\<lparr>users := us\<rparr>)))"

section \<open>PayPal payments (routes/payments.js)\<close>

text \<open>
  \<^verbatim>\<open>processSuccessfulPayment\<close>, which the PayPal success callback, the IPN handler and
  the manual route call with the user id, the transaction id and the amount. The
  argument \<open>amount\<close> is the value of \<^verbatim>\<open>parseFloat(amount)\<close>, \<open>None\<close> when that is
  \<^verbatim>\<open>NaN\<close>; the transaction id goes into the log line and into the record pushed on
  \<^verbatim>\<open>subscription.payments\<close> only, a path that the schema does not declare, so it is no
  argument here. The function calls no commission processing.

  The threshold is the double \<^verbatim>\<open>9.99\<close>, which is the least double not below the
  decimal 9.99, so a double is at least the one exactly when the rational it equals is at
  least the other. The price \<^verbatim>\<open>NaN\<close> is refused by the cast of a Number path, and the
  save is then rejected by validation. The function rethrows what it catches:
  \<open>Inl\<close> is the exception. The result of \<^verbatim>\<open>enableUserInstances\<close> has no
  \<^verbatim>\<open>enabledInstances\<close> when it reports a failure.
\<close>

definition processSuccessfulPayment ::
  "(objectId \<Rightarrow> bool) \<Rightarrow> date \<Rightarrow> db \<Rightarrow> objectId \<Rightarrow> rat option
     \<Rightarrow> (error + plan \<times> nat option) \<times> db" where
  "processSuccessfulPayment gw now d uid amount =
     (case findBy user_id uid (users d) of
        None \<Rightarrow> (Inl NotFoundError, d)
      | Some u \<Rightarrow>
          (case amount of
             None \<Rightarrow> (Inl ValidationError, d)
           | Some a \<Rightarrow>
               (let p = (if 999 / 100 \<le> a then Pro else Starter);
                    u1 = u\<lparr>subscription := (subscription u)
                            \<lparr>plan := p, status := Active, price := a,
                             nextBillingDate := Some (now + thirtyDays),
                             maxInstances := Some (if p = Pro then 5 else 1)\<rparr>\<rparr>;
                    d1 = d\<lparr>users := save_doc user_id u1 (users d)\<rparr>;
                    (r, d2) = enableUserInstances gw now d1 uid
                in (Inr (p, case r of EnableSuccess n \<Rightarrow> Some n | EnableFailure \<Rightarrow> None),
                    d2))))"

section \<open>Concrete inputs\<close>

text \<open>
  A starter subscription in its trial, which ends at minute 60; the user who holds it,
  referred by user 2; the same user with an active and with an expired subscription; a
  pro subscription of an old document without the stored count; one instance of the
  user, running, and the same instance after a failed deployment; the referrer, an
  active affiliate, and the referrer's affiliate record; a store for the trial
  reconciliation and one for the payment routes; a payment event of amount 100.
\<close>

definition starterTrial :: subscription where
  "starterTrial = \<lparr>plan = Starter, status = Trial, maxInstances = Some 1, price = 399 / 100,
     trialEndsAt = 3600000, nextBillingDate = None\<rparr>"

definition payer :: user where
  "payer = \<lparr>user_id = 1, referredBy = Some 2, affiliateStatus = NotAffiliate,
     activeReferrals = 0, subscription = starterTrial\<rparr>"

definition activePayer :: user where
  "activePayer = payer\<lparr>subscription := starterTrial\<lparr>status := Active\<rparr>\<rparr>"

definition expiredPayer :: user where
  "expiredPayer = payer\<lparr>subscription := starterTrial\<lparr>status := Expired\<rparr>\<rparr>"

definition legacyPro :: user where
  "legacyPro = payer\<lparr>subscription :=
     starterTrial\<lparr>status := Active, plan := Pro, maxInstances := None\<rparr>\<rparr>"

definition runningInstance :: instanceDoc where
  "runningInstance = \<lparr>inst_id = 10, userId = 1, inst_status = Running,
     deletedAt = None\<rparr>"

definition failedInstance :: instanceDoc where
  "failedInstance = runningInstance\<lparr>inst_status := Error\<rparr>"

definition referrerUser :: user where
  "referrerUser = \<lparr>user_id = 2, referredBy = None, affiliateStatus = AffActive,
     activeReferrals = 0, subscription = starterTrial\<lparr>status := Active\<rparr>\<rparr>"

definition referrerAffiliate :: affiliate where
  "referrerAffiliate = \<lparr>aff_user = 2, totalEarnings = 0, pendingEarnings = 0,
     referrals = []\<rparr>"

definition trialDb :: db where
  "trialDb = \<lparr>users = [payer], instances = [runningInstance], affiliates = []\<rparr>"

definition payDb :: db where
  "payDb = \<lparr>users = [payer, referrerUser], instances = [runningInstance],
     affiliates = [referrerAffiliate]\<rparr>"

definition paymentEvent :: payment_event where
  "paymentEvent = \<lparr>ev_userId = Some 1, ev_amount = Some 100,
     ev_transactionId = Some ''tx1''\<rparr>"

text \<open>
  The environments in which no write fails, and in which one write fails; and the
  rounding that changes nothing, which is what double rounding does on the products, the
  quotients and the sums of the payment event's amount 100 from earnings 0.
\<close>

definition noFailure :: "write_op \<Rightarrow> bool" where
  "noFailure w = False"

definition onlyFails :: "write_op \<Rightarrow> write_op \<Rightarrow> bool" where
  "onlyFails w0 w = (w = w0)"

definition noRounding :: "rat \<Rightarrow> rat" where
  "noRounding x = x"

lemmas input_defs = starterTrial_def payer_def activePayer_def expiredPayer_def
  legacyPro_def runningInstance_def failedInstance_def referrerUser_def
  referrerAffiliate_def trialDb_def payDb_def paymentEvent_def

section \<open>Facts about collections\<close>

lemma find_map_replace_same:
  "find (\<lambda>x. key x = key d) xs \<noteq> None \<Longrightarrow>
   find (\<lambda>x. key x = key d) (map (\<lambda>x. if key x = key d then d else x) xs) = Some d"
  by (induction xs) auto

lemma find_append_new:
  "find P xs = None \<Longrightarrow> find P (xs @ [d]) = (if P d then Some d else None)"
  by (induction xs) (auto split: if_splits)

lemma findBy_save_same: "findBy key (key d) (save_doc key d xs) = Some d"
  by (simp add: findBy_def save_doc_def find_map_replace_same find_append_new)

lemma find_map_replace_other:
  "k \<noteq> key d \<Longrightarrow>
   find (\<lambda>x. key x = k) (map (\<lambda>x. if key x = key d then d else x) xs)
     = find (\<lambda>x. key x = k) xs"
  by (induction xs) auto

lemma find_append_other: "\<not> P d \<Longrightarrow> find P (xs @ [d]) = find P xs"
  by (induction xs) auto

lemma findBy_save_other:
  "k \<noteq> key d \<Longrightarrow> findBy key k (save_doc key d xs) = findBy key k xs"
  by (simp add: findBy_def save_doc_def find_map_replace_other find_append_other)

lemma findBy_key: "findBy key k xs = Some x \<Longrightarrow> key x = k"
  by (auto simp: findBy_def find_Some_iff)

lemma list_all_save_doc: "list_all P xs \<Longrightarrow> P d \<Longrightarrow> list_all P (save_doc key d xs)"
  by (auto simp: save_doc_def list_all_iff)

section \<open>The entitlement evaluator\<close>

lemma countLiveNonTerminal_le: "countLiveNonTerminal uid insts \<le> countNotDeleted uid insts"
  unfolding countLiveNonTerminal_def countNotDeleted_def
  by (induction insts) auto

lemma inactive_max_zero: "\<not> isSubscriptionActive u now \<Longrightarrow> getMaxInstances u now = 0"
  by (simp add: getMaxInstances_def)

text \<open>
  Claim C8. For a subscription in status trial and any reference time, \<open>isTrialActive\<close>
  holds exactly when the time is before \<open>trialEndsAt\<close>, so it is false at and after
  \<open>trialEndsAt\<close>; for a subscription in any other status it is false.
\<close>

theorem isTrialActive_iff:
  "(status (subscription u) = Trial
      \<longrightarrow> (isTrialActive u now \<longleftrightarrow> now < trialEndsAt (subscription u)))
   \<and> (status (subscription u) = Trial \<and> trialEndsAt (subscription u) \<le> now
        \<longrightarrow> \<not> isTrialActive u now)
   \<and> (status (subscription u) \<noteq> Trial \<longrightarrow> \<not> isTrialActive u now)"
  by (auto simp: isTrialActive_def)

theorem isTrialActive_iff_witness:
  "status (subscription payer) = Trial
   \<and> isTrialActive payer 3599999 \<and> \<not> isTrialActive payer 3600000
   \<and> \<not> isTrialActive payer 3600001
   \<and> status (subscription activePayer) \<noteq> Trial \<and> \<not> isTrialActive activePayer 0"
  using isTrialActive_iff [of payer 3599999] isTrialActive_iff [of payer 3600000]
    isTrialActive_iff [of payer 3600001] isTrialActive_iff [of activePayer 0]
  by (simp add: input_defs)

text \<open>
  Claim C9. The computed quota \<open>getMaxInstances\<close> is 0 when the subscription is not
  active (neither status active nor an unexpired trial); when it is active, the quota is
  the stored \<open>maxInstances\<close> if that field is set, and otherwise the plan default, 1 for
  starter and -1 for pro.
\<close>

theorem getMaxInstances_cases:
  "(\<not> isSubscriptionActive u now \<longrightarrow> getMaxInstances u now = 0)
   \<and> (isSubscriptionActive u now \<and> maxInstances (subscription u) = Some m
        \<longrightarrow> getMaxInstances u now = m)
   \<and> (isSubscriptionActive u now \<and> maxInstances (subscription u) = None
        \<and> plan (subscription u) = Starter \<longrightarrow> getMaxInstances u now = 1)
   \<and> (isSubscriptionActive u now \<and> maxInstances (subscription u) = None
        \<and> plan (subscription u) = Pro \<longrightarrow> getMaxInstances u now = - 1)"
  by (simp add: getMaxInstances_def planLimits_def)

theorem getMaxInstances_cases_witness:
  "\<not> isSubscriptionActive expiredPayer 0 \<and> getMaxInstances expiredPayer 0 = 0
   \<and> isSubscriptionActive payer 0 \<and> maxInstances (subscription payer) = Some 1
   \<and> getMaxInstances payer 0 = 1
   \<and> isSubscriptionActive legacyPro 0 \<and> maxInstances (subscription legacyPro) = None
   \<and> plan (subscription legacyPro) = Pro \<and> getMaxInstances legacyPro 0 = - 1"
  using getMaxInstances_cases [of expiredPayer 0 1] getMaxInstances_cases [of payer 0 1]
    getMaxInstances_cases [of legacyPro 0 1]
  by (simp add: input_defs isSubscriptionActive_def isTrialActive_def)

text \<open>
  Claim C10. \<open>canCreateInstance\<close> is false for an inactive subscription whatever the
  instances are; it is true for every collection of instances when the computed quota is
  -1; and for any other quota it is false as soon as the count of the user's instances
  reaches the quota, both for the count of the instances that are not deleted (the one
  the function takes) and for the count that leaves out the deleting and error ones.
\<close>

theorem canCreateInstance_cases:
  "(\<not> isSubscriptionActive u now \<longrightarrow> \<not> canCreateInstance u now insts)
   \<and> (getMaxInstances u now = - 1 \<longrightarrow> canCreateInstance u now insts)
   \<and> (getMaxInstances u now \<noteq> - 1
        \<and> getMaxInstances u now \<le> countNotDeleted (user_id u) insts
        \<longrightarrow> \<not> canCreateInstance u now insts)
   \<and> (getMaxInstances u now \<noteq> - 1
        \<and> getMaxInstances u now \<le> countLiveNonTerminal (user_id u) insts
        \<longrightarrow> \<not> canCreateInstance u now insts)"
proof -
  have inactive: "\<not> isSubscriptionActive u now \<Longrightarrow> getMaxInstances u now = 0"
    by (rule inactive_max_zero)
  have le: "countLiveNonTerminal (user_id u) insts \<le> countNotDeleted (user_id u) insts"
    by (rule countLiveNonTerminal_le)
  show ?thesis
    using inactive le by (auto simp: canCreateInstance_def Let_def)
qed

theorem canCreateInstance_cases_witness:
  "\<not> isSubscriptionActive expiredPayer 0 \<and> \<not> canCreateInstance expiredPayer 0 []
   \<and> getMaxInstances legacyPro 0 = - 1
   \<and> canCreateInstance legacyPro 0 [runningInstance, runningInstance]
   \<and> getMaxInstances activePayer 0 \<noteq> - 1
   \<and> getMaxInstances activePayer 0 \<le> countNotDeleted (user_id activePayer) [runningInstance]
   \<and> getMaxInstances activePayer 0
        \<le> countLiveNonTerminal (user_id activePayer) [runningInstance]
   \<and> \<not> canCreateInstance activePayer 0 [runningInstance]"
  using canCreateInstance_cases [of expiredPayer 0 "[]"]
    canCreateInstance_cases [of legacyPro 0 "[runningInstance, runningInstance]"]
    canCreateInstance_cases [of activePayer 0 "[runningInstance]"]
  by (simp add: input_defs isSubscriptionActive_def isTrialActive_def getMaxInstances_def
      planLimits_def countNotDeleted_def countLiveNonTerminal_def)

text \<open>
  Claim C1. The claim: the count that the quota check of \<open>canCreateInstance\<close> takes is
  the number of the user's instances with \<open>deletedAt = null\<close> and a status other than
  deleting and error, and creation is permitted exactly when that count is below the
  quota. The code at a user with an active starter subscription (quota 1) whose only
  instance is in status error after a failed deployment: the filtered count is 0, below
  the quota, but \<open>canCreateInstance\<close> counts the instance (its query has no status
  filter) and answers false; \<open>checkInstanceLimit\<close> then reports the limit as reached
  with \<open>currentCount = 0\<close> and \<open>maxAllowed = 1\<close>.
\<close>

theorem canCreateInstance_counts_failed_instance:
  "countLiveNonTerminal (user_id activePayer) [failedInstance] = 0
   \<and> countNotDeleted (user_id activePayer) [failedInstance] = 1
   \<and> getMaxInstances activePayer 0 = 1
   \<and> \<not> canCreateInstance activePayer 0 [failedInstance]
   \<and> checkInstanceLimit activePayer 0 [failedInstance] = LimitReached 0 1"
  by (simp add: input_defs isSubscriptionActive_def isTrialActive_def getMaxInstances_def
      canCreateInstance_def checkInstanceLimit_def countNotDeleted_def
      countLiveNonTerminal_def)

section \<open>The pro upgrade\<close>

text \<open>
  Claim C6, as stated, fails: the upgrade of a user whose subscription is expired leaves
  the status expired, in memory, in the store and in the response of the route.
\<close>

theorem upgradeToPro_expired_stays_expired:
  "status (subscription (fst (upgradeToPro expiredPayer [expiredPayer]))) \<noteq> Active
   \<and> map (\<lambda>u. status (subscription u)) (snd (upgradeToPro expiredPayer [expiredPayer]))
       = [Expired]
   \<and> fst (upgrade_to_pro 0 \<lparr>users = [expiredPayer], instances = [], affiliates = []\<rparr> 1)
       = UpgradeOk Expired 0"
  by (simp add: input_defs upgradeToPro_def upgrade_to_pro_def save_doc_def findBy_def Let_def
      getMaxInstances_def isSubscriptionActive_def isTrialActive_def)

text \<open>
  Claim C6, amended. The pro upgrade makes no transition of the subscription status:
  after \<open>upgradeToPro\<close> the status is the one before it (so it is active exactly when
  it was active before), the plan is pro, the stored count is -1 and the price 19.99,
  and this document is the one found in the store under the user's id.
\<close>

theorem upgradeToPro_keeps_status:
  "status (subscription (fst (upgradeToPro u store))) = status (subscription u)
   \<and> plan (subscription (fst (upgradeToPro u store))) = Pro
   \<and> maxInstances (subscription (fst (upgradeToPro u store))) = Some (- 1)
   \<and> price (subscription (fst (upgradeToPro u store))) = 1999 / 100
   \<and> findBy user_id (user_id u) (snd (upgradeToPro u store))
       = Some (fst (upgradeToPro u store))"
proof -
  let ?u' = "u\<lparr>subscription := (subscription u)\<lparr>plan := Pro, maxInstances := Some (- 1),
                                                    price := 1999 / 100\<rparr>\<rparr>"
  have "findBy user_id (user_id ?u') (save_doc user_id ?u' store) = Some ?u'"
    by (rule findBy_save_same)
  then show ?thesis by (simp add: upgradeToPro_def Let_def)
qed

text \<open>
  Claim C7, as stated, fails: after the upgrade of a user whose subscription is expired
  the computed quota is 0, not -1.
\<close>

theorem upgradeToPro_inactive_quota_zero:
  "\<not> isSubscriptionActive expiredPayer 0
   \<and> getMaxInstances (fst (upgradeToPro expiredPayer [expiredPayer])) 0 = 0
   \<and> getMaxInstances (fst (upgradeToPro expiredPayer [expiredPayer])) 0 \<noteq> - 1"
  by (simp add: input_defs upgradeToPro_def Let_def getMaxInstances_def
      isSubscriptionActive_def isTrialActive_def)

text \<open>
  Claim C7, amended. Once the plan has been set to pro by the upgrade, the computed
  quota is -1 whenever the subscription is active at the reference time (status active
  or an unexpired trial), whatever count was stored before, and 0 otherwise; the upgrade
  does not change whether the subscription is active.
\<close>

theorem upgradeToPro_quota:
  "getMaxInstances (fst (upgradeToPro u store)) now
     = (if isSubscriptionActive u now then - 1 else 0)
   \<and> (isSubscriptionActive (fst (upgradeToPro u store)) now
        \<longleftrightarrow> isSubscriptionActive u now)"
  by (simp add: upgradeToPro_def Let_def getMaxInstances_def isSubscriptionActive_def
      isTrialActive_def)

section \<open>Trial reconciliation and the schema's enum\<close>

lemma disabled_not_in_enum: "Disabled \<notin> set instance_status_enum"
  by (simp add: instance_status_enum_def)

lemma instance_save_disabled:
  "inst_status i = Disabled \<Longrightarrow> instance_save i store = Inl ValidationError"
  by (simp add: instance_save_def instance_validate_def disabled_not_in_enum)

lemma instance_save_valid:
  "list_all instance_validate store \<Longrightarrow> instance_save i store = Inr store'
     \<Longrightarrow> list_all instance_validate store'"
  by (auto simp: instance_save_def list_all_save_doc split: if_splits)

lemma disableEach_store: "snd (disableEach gw now cands store) = store"
  by (induction cands) (simp_all add: instance_save_disabled)

lemma disableEach_error:
  "fst (disableEach gw now cands store)
     = (if list_ex (\<lambda>i. gw (inst_id i)) cands then Some ValidationError else None)"
  by (induction cands) (simp_all add: instance_save_disabled)

lemma handleExpiredTrial_instances: "instances (handleExpiredTrial gw now d u) = instances d"
proof -
  obtain e store where r:
    "disableEach gw now (expiryCandidates (user_id u) (instances d)) (instances d) = (e, store)"
    by (cases "disableEach gw now (expiryCandidates (user_id u) (instances d)) (instances d)")
  have "store = instances d"
    using disableEach_store [of gw now "expiryCandidates (user_id u) (instances d)" "instances d"] r
    by simp
  then show ?thesis
    using r by (cases e) (simp_all add: handleExpiredTrial_def Let_def)
qed

text \<open>
  What one call of \<open>handleExpiredTrial\<close> does, in general: when the Gateway reports
  success for some candidate instance, the rejected save leaves the whole store as it
  was, the subscription included; when it reports failure for every candidate, the
  subscription is saved as expired.
\<close>

lemma handleExpiredTrial_blocked:
  assumes "list_ex (\<lambda>i. gw (inst_id i)) (expiryCandidates (user_id u) (instances d))"
  shows "handleExpiredTrial gw now d u = d"
proof -
  let ?r = "disableEach gw now (expiryCandidates (user_id u) (instances d)) (instances d)"
  have "fst ?r = Some ValidationError" using assms by (simp add: disableEach_error)
  moreover have "snd ?r = instances d" by (rule disableEach_store)
  ultimately have "?r = (Some ValidationError, instances d)" by (cases ?r) simp
  then show ?thesis by (simp add: handleExpiredTrial_def)
qed

lemma handleExpiredTrial_all_failed:
  assumes "\<not> list_ex (\<lambda>i. gw (inst_id i)) (expiryCandidates (user_id u) (instances d))"
  shows "handleExpiredTrial gw now d u
           = d\<lparr>users := save_doc user_id
                  (u\<lparr>subscription := (subscription u)\<lparr>status := Expired\<rparr>\<rparr>)
                  (users d)\<rparr>"
proof -
  let ?r = "disableEach gw now (expiryCandidates (user_id u) (instances d)) (instances d)"
  have "fst ?r = None" using assms by (simp add: disableEach_error)
  moreover have "snd ?r = instances d" by (rule disableEach_store)
  ultimately have "?r = (None, instances d)" by (cases ?r) simp
  then show ?thesis by (simp add: handleExpiredTrial_def Let_def)
qed

lemma valid_no_disabled:
  "list_all instance_validate insts \<Longrightarrow> disabledInstances uid insts = []"
  by (induction insts)
     (auto simp: disabledInstances_def instance_validate_def instance_status_enum_def)

lemma enableUserInstances_nothing:
  "list_all instance_validate (instances d) \<Longrightarrow> findBy user_id uid (users d) = Some u
     \<Longrightarrow> enableUserInstances gw now d uid = (EnableSuccess 0, d)"
  by (simp add: enableUserInstances_def valid_no_disabled)

text \<open>
  Claim C2. The claim: in a reconciliation tick, a Gateway disable success makes the
  instance's status disabled, and after the user's instances are processed the
  subscription status is set to expired. The code at a user whose trial has expired,
  with one running instance and a Gateway that reports success: the save of the
  instance with status disabled is rejected by the schema's enum, the exception leaves
  the loop and is caught at the end of \<open>handleExpiredTrial\<close>, and the tick leaves
  the store as it was: the instance is still running and the subscription still in
  trial.
\<close>

theorem handleExpiredTrial_disable_success:
  "handleExpiredTrial (\<lambda>_. True) 3660000 trialDb payer = trialDb
   \<and> checkExpiredTrials (\<lambda>_. True) 3660000 trialDb = trialDb
   \<and> map (\<lambda>u. status (subscription u))
         (users (checkExpiredTrials (\<lambda>_. True) 3660000 trialDb)) = [Trial]
   \<and> map inst_status (instances (checkExpiredTrials (\<lambda>_. True) 3660000 trialDb))
       = [Running]"
  by (simp add: input_defs checkExpiredTrials_def expiredTrialUsers_def
      handleExpiredTrial_def expiryCandidates_def instance_save_def instance_validate_def
      instance_status_enum_def)

text \<open>
  Claim C5. The schema's enum of the instance status has no value disabled, and every
  write of an instance goes through a save that validates against it. So: a document
  with status disabled is rejected on save; a save that succeeds keeps every persisted
  instance within the enum; the write of status disabled in the reconciliation loop is
  rejected as soon as the Gateway reports success, and \<open>handleExpiredTrial\<close> never
  changes a persisted instance; and the query of the payment path for instances with
  status disabled finds nothing in a store whose instances are within the enum, so that
  \<open>enableUserInstances\<close> enables nothing there.
\<close>

theorem disabled_status_rejected:
  "Disabled \<notin> set instance_status_enum
   \<and> (inst_status i = Disabled \<longrightarrow> instance_save i store = Inl ValidationError)
   \<and> (list_all instance_validate store \<and> instance_save i store = Inr store'
        \<longrightarrow> list_all instance_validate store')
   \<and> (gw (inst_id i)
        \<longrightarrow> disableEach gw now (i # rest) store = (Some ValidationError, store))
   \<and> instances (handleExpiredTrial gw now d u) = instances d
   \<and> (list_all instance_validate (instances d)
        \<longrightarrow> disabledInstances uid (instances d) = [])
   \<and> (list_all instance_validate (instances d) \<and> findBy user_id uid (users d) = Some v
        \<longrightarrow> enableUserInstances gw now d uid = (EnableSuccess 0, d))"
  using disabled_not_in_enum instance_save_disabled [of i store]
    instance_save_valid [of store i store'] handleExpiredTrial_instances [of gw now d u]
    valid_no_disabled [of "instances d" uid] enableUserInstances_nothing [of d uid v gw now]
  by (simp add: instance_save_disabled)

theorem disabled_status_rejected_witness:
  "inst_status (runningInstance\<lparr>inst_status := Disabled\<rparr>) = Disabled
   \<and> instance_save (runningInstance\<lparr>inst_status := Disabled\<rparr>) [runningInstance]
       = Inl ValidationError
   \<and> list_all instance_validate [runningInstance]
   \<and> instance_save (runningInstance\<lparr>inst_status := Stopped\<rparr>) [runningInstance]
       = Inr [runningInstance\<lparr>inst_status := Stopped\<rparr>]
   \<and> list_all instance_validate [runningInstance\<lparr>inst_status := Stopped\<rparr>]
   \<and> disableEach (\<lambda>_. True) 3660000 [runningInstance] [runningInstance]
       = (Some ValidationError, [runningInstance])
   \<and> instances (handleExpiredTrial (\<lambda>_. True) 3660000 trialDb payer) = instances trialDb
   \<and> list_all instance_validate (instances trialDb)
   \<and> disabledInstances 1 (instances trialDb) = []
   \<and> findBy user_id 1 (users trialDb) = Some payer
   \<and> enableUserInstances (\<lambda>_. True) 3660000 trialDb 1 = (EnableSuccess 0, trialDb)"
  using disabled_status_rejected [of "runningInstance\<lparr>inst_status := Disabled\<rparr>"
      "[runningInstance]" "[runningInstance]" "\<lambda>_. True" 3660000 "[]" trialDb payer 1 payer]
    disabled_status_rejected [of "runningInstance\<lparr>inst_status := Stopped\<rparr>"
      "[runningInstance]" "[runningInstance\<lparr>inst_status := Stopped\<rparr>]" "\<lambda>_. True"
      3660000 "[]" trialDb payer 1 payer]
    disabled_status_rejected [of runningInstance
      "[runningInstance]" "[runningInstance]" "\<lambda>_. True" 3660000 "[]" trialDb payer 1 payer]
  by (simp add: trialDb_def runningInstance_def payer_def instance_validate_def
      instance_status_enum_def instance_save_def save_doc_def findBy_def)

section \<open>Payment and commission processing\<close>

text \<open>
  One call of \<open>applyCommission\<close> in which no write fails: the referrer stays
  an affiliate and the earnings of the affiliate record rise by the commission.
\<close>

lemma applyCommission_ok:
  assumes nofail: "\<not> fails ReferrerSave" "\<not> fails AffiliateSave"
    and ref: "findBy user_id rid (users d) = Some referrer"
    and aff: "aff_user aff = rid"
  shows "\<exists>d' referrer' aff'.
           applyCommission fails fl d u referrer aff amount txn
             = (Some \<lparr>cr_referrerId = rid, cr_commission = fl (fl (amount * 20) / 100),
                      cr_transactionId = txn\<rparr>, d')
           \<and> instances d' = instances d
           \<and> findBy user_id rid (users d') = Some referrer'
           \<and> affiliateStatus referrer' = affiliateStatus referrer
           \<and> subscription referrer' = subscription referrer
           \<and> referredBy referrer' = referredBy referrer
           \<and> (\<forall>k. k \<noteq> rid \<longrightarrow> findBy user_id k (users d') = findBy user_id k (users d))
           \<and> findBy aff_user rid (affiliates d') = Some aff'
           \<and> totalEarnings aff' = fl (totalEarnings aff + fl (fl (amount * 20) / 100))
           \<and> pendingEarnings aff' = fl (pendingEarnings aff + fl (fl (amount * 20) / 100))"
proof -
  have rid: "user_id referrer = rid" using ref by (rule findBy_key)
  have saved: "aff_user a = rid \<Longrightarrow> findBy aff_user rid (save_doc aff_user a xs) = Some a"
    for a :: affiliate and xs
    using findBy_save_same [of aff_user a xs] by simp
  show ?thesis
  proof (cases "find (\<lambda>r. ref_user r = user_id u) (referrals aff) = None")
    case False
    then show ?thesis
      using nofail ref aff rid by (simp add: applyCommission_def Let_def saved)
  next
    case True
    let ?r' = "referrer\<lparr>activeReferrals := activeReferrals referrer + 1\<rparr>"
    have "findBy user_id rid (save_doc user_id ?r' (users d)) = Some ?r'"
      using findBy_save_same [of user_id ?r' "users d"] rid by simp
    moreover have "\<forall>k. k \<noteq> rid \<longrightarrow>
        findBy user_id k (save_doc user_id ?r' (users d)) = findBy user_id k (users d)"
      using findBy_save_other [of _ user_id ?r' "users d"] rid by simp
    ultimately show ?thesis
      using True nofail aff rid by (simp add: applyCommission_def Let_def saved)
  qed
qed

lemma processAffiliateCommission_ok:
  assumes u: "referredBy u = Some rid"
    and ref: "findBy user_id rid (users d) = Some referrer" "hasAffiliateAccess referrer"
    and aff: "findBy aff_user rid (affiliates d) = Some aff"
  shows "processAffiliateCommission fails fl d u amount txn
           = applyCommission fails fl d u referrer aff amount txn"
proof -
  have "user_id referrer = rid" using ref(1) by (rule findBy_key)
  then show ?thesis using u ref aff by (simp add: processAffiliateCommission_def)
qed

lemma webhook_payment_ok:
  assumes nofail: "\<not> fails ReferrerSave" "\<not> fails AffiliateSave" "\<not> fails UserSave"
    and ev: "ev_userId ev = Some uid" "ev_amount ev = Some amount"
      "ev_transactionId ev = Some txn" "amount \<noteq> 0" "txn \<noteq> []"
    and u: "findBy user_id uid (users d) = Some u" "referredBy u = Some rid"
    and ref: "findBy user_id rid (users d) = Some referrer" "hasAffiliateAccess referrer"
    and aff: "findBy aff_user rid (affiliates d) = Some aff"
  shows "\<exists>d' u' referrer' aff'.
           webhook_payment fails fl now d ev
             = (PaymentOk True (fl (fl (amount * 20) / 100)), d')
           \<and> findBy user_id uid (users d') = Some u'
           \<and> referredBy u' = Some rid
           \<and> nextBillingDate (subscription u') = Some (now + thirtyDays)
           \<and> findBy user_id rid (users d') = Some referrer'
           \<and> hasAffiliateAccess referrer'
           \<and> findBy aff_user rid (affiliates d') = Some aff'
           \<and> totalEarnings aff' = fl (totalEarnings aff + fl (fl (amount * 20) / 100))
           \<and> pendingEarnings aff' = fl (pendingEarnings aff + fl (fl (amount * 20) / 100))"
proof -
  let ?u1 = "u\<lparr>subscription := (subscription u)
                 \<lparr>nextBillingDate := Some (now + thirtyDays)\<rparr>\<rparr>"
  let ?c = "fl (fl (amount * 20) / 100)"
  have uid: "user_id u = uid" using u(1) by (rule findBy_key)
  have affk: "aff_user aff = rid" using aff by (rule findBy_key)
  obtain d1 referrer1 aff1 where
    ac: "applyCommission fails fl d ?u1 referrer aff amount (TxnString txn)
           = (Some \<lparr>cr_referrerId = rid, cr_commission = ?c,
                    cr_transactionId = TxnString txn\<rparr>, d1)"
    and r1: "findBy user_id rid (users d1) = Some referrer1"
      "affiliateStatus referrer1 = affiliateStatus referrer"
    and a1: "findBy aff_user rid (affiliates d1) = Some aff1"
      "totalEarnings aff1 = fl (totalEarnings aff + ?c)"
      "pendingEarnings aff1 = fl (pendingEarnings aff + ?c)"
    using applyCommission_ok [OF nofail(1,2) ref(1) affk, of fl ?u1 amount "TxnString txn"]
    by blast
  have pc: "processAffiliateCommission fails fl d ?u1 amount (TxnString txn)
              = applyCommission fails fl d ?u1 referrer aff amount (TxnString txn)"
    using processAffiliateCommission_ok [OF _ ref aff, of ?u1] u(2) by simp
  let ?d' = "d1\<lparr>users := save_doc user_id ?u1 (users d1)\<rparr>"
  have res: "webhook_payment fails fl now d ev = (PaymentOk True ?c, ?d')"
    using ev u nofail(3) pc ac by (simp add: webhook_payment_def)
  have payer: "findBy user_id uid (users ?d') = Some ?u1"
    using findBy_save_same [of user_id ?u1 "users d1"] uid by simp
  have "\<exists>referrer'. findBy user_id rid (users ?d') = Some referrer'
          \<and> hasAffiliateAccess referrer'"
  proof (cases "rid = uid")
    case True
    then have "u = referrer" using u(1) ref(1) by simp
    then show ?thesis using True payer ref(2) by (simp add: hasAffiliateAccess_def)
  next
    case False
    then have "findBy user_id rid (users ?d') = Some referrer1"
      using findBy_save_other [of rid user_id ?u1 "users d1"] uid r1(1) by simp
    then show ?thesis using r1(2) ref(2) by (simp add: hasAffiliateAccess_def)
  qed
  then show ?thesis using res payer a1 u(2) by auto
qed

text \<open>
  \<open>processSuccessfulPayment\<close> touches no affiliate record, and what it stores for the
  paying user does not depend on what an earlier delivery stored.
\<close>

lemma map_replace_absent:
  "find (\<lambda>x. key x = k) xs = None \<Longrightarrow> map (\<lambda>x. if key x = k then d else x) xs = xs"
  by (induction xs) (auto split: if_splits)

lemma map_replace_twice:
  "key d1 = k \<Longrightarrow>
   map (\<lambda>x. if key x = k then d2 else x) (map (\<lambda>x. if key x = k then d1 else x) xs)
     = map (\<lambda>x. if key x = k then d2 else x) xs"
  by (induction xs) auto

lemma save_doc_twice:
  assumes "key d2 = key d1"
  shows "save_doc key d2 (save_doc key d1 xs) = save_doc key d2 xs"
proof (cases "find (\<lambda>x. key x = key d1) xs = None")
  case True
  then show ?thesis
    using assms by (simp add: save_doc_def findBy_def find_append_new map_replace_absent)
next
  case False
  let ?m = "map (\<lambda>x. if key x = key d1 then d1 else x) xs"
  have s1: "save_doc key d1 xs = ?m"
    using False by (simp add: save_doc_def findBy_def)
  have "find (\<lambda>x. key x = key d1) ?m = Some d1"
    using False by (rule find_map_replace_same)
  then have s2: "save_doc key d2 ?m = map (\<lambda>x. if key x = key d1 then d2 else x) ?m"
    using assms by (simp add: save_doc_def findBy_def)
  have s3: "save_doc key d2 xs = map (\<lambda>x. if key x = key d1 then d2 else x) xs"
    using assms False by (simp add: save_doc_def findBy_def)
  show ?thesis
    unfolding s1 s2 s3 by (rule map_replace_twice) simp
qed

lemma enableUserInstances_users:
  "users (snd (enableUserInstances gw now d uid)) = users d
   \<and> affiliates (snd (enableUserInstances gw now d uid)) = affiliates d"
  by (simp add: enableUserInstances_def Let_def split_beta split: option.splits)

lemma processSuccessfulPayment_stored:
  assumes "findBy user_id uid (users d) = Some u"
  shows "users (snd (processSuccessfulPayment gw now d uid (Some a)))
           = save_doc user_id
               (u\<lparr>subscription := (subscription u)
                    \<lparr>plan := (if 999 / 100 \<le> a then Pro else Starter), status := Active,
                     price := a, nextBillingDate := Some (now + thirtyDays),
                     maxInstances := Some (if 999 / 100 \<le> a then 5 else 1)\<rparr>\<rparr>)
               (users d)
         \<and> affiliates (snd (processSuccessfulPayment gw now d uid (Some a))) = affiliates d
         \<and> (\<exists>r. fst (processSuccessfulPayment gw now d uid (Some a)) = Inr r)"
  using assms
  by (simp add: processSuccessfulPayment_def Let_def split_beta enableUserInstances_users)

text \<open>
  Claim C3, as stated, fails: the same payment event (transaction \<open>tx1\<close>, amount 100)
  processed twice by the payment webhook, with no write failing, leaves a store other
  than the one after the first processing, even at the same clock value: the affiliate's
  earnings are 20 after the first and 40 after the second; and a second delivery one
  minute later moves \<open>nextBillingDate\<close> forward by that minute.
\<close>

theorem webhook_payment_replay_differs:
  "snd (webhook_payment noFailure noRounding 5000
          (snd (webhook_payment noFailure noRounding 5000 payDb paymentEvent)) paymentEvent)
     \<noteq> snd (webhook_payment noFailure noRounding 5000 payDb paymentEvent)
   \<and> map totalEarnings
         (affiliates (snd (webhook_payment noFailure noRounding 5000 payDb paymentEvent)))
       = [20]
   \<and> map totalEarnings (affiliates (snd (webhook_payment noFailure noRounding 5000
          (snd (webhook_payment noFailure noRounding 5000 payDb paymentEvent)) paymentEvent)))
       = [40]
   \<and> map (\<lambda>u. nextBillingDate (subscription u))
         (users (snd (webhook_payment noFailure noRounding 5000 payDb paymentEvent)))
       = [Some 2592005000, None]
   \<and> map (\<lambda>u. nextBillingDate (subscription u))
         (users (snd (webhook_payment noFailure noRounding 65000
            (snd (webhook_payment noFailure noRounding 5000 payDb paymentEvent))
            paymentEvent)))
       = [Some 2592065000, None]"
proof -
  have once: "map totalEarnings
      (affiliates (snd (webhook_payment noFailure noRounding 5000 payDb paymentEvent)))
        = [20]"
    by (simp add: webhook_payment_def processAffiliateCommission_def applyCommission_def
        input_defs noFailure_def noRounding_def findBy_def save_doc_def
        hasAffiliateAccess_def Let_def)
  have twice: "map totalEarnings (affiliates (snd (webhook_payment noFailure noRounding 5000
      (snd (webhook_payment noFailure noRounding 5000 payDb paymentEvent)) paymentEvent)))
        = [40]"
    by (simp add: webhook_payment_def processAffiliateCommission_def applyCommission_def
        input_defs noFailure_def noRounding_def findBy_def save_doc_def
        hasAffiliateAccess_def Let_def)
  have dates: "map (\<lambda>u. nextBillingDate (subscription u))
      (users (snd (webhook_payment noFailure noRounding 5000 payDb paymentEvent)))
        = [Some 2592005000, None]"
    by (simp add: webhook_payment_def processAffiliateCommission_def applyCommission_def
        input_defs noFailure_def noRounding_def findBy_def save_doc_def
        hasAffiliateAccess_def Let_def thirtyDays_def)
  have later: "map (\<lambda>u. nextBillingDate (subscription u))
      (users (snd (webhook_payment noFailure noRounding 65000
         (snd (webhook_payment noFailure noRounding 5000 payDb paymentEvent)) paymentEvent)))
        = [Some 2592065000, None]"
    by (simp add: webhook_payment_def processAffiliateCommission_def applyCommission_def
        input_defs noFailure_def noRounding_def findBy_def save_doc_def
        hasAffiliateAccess_def Let_def thirtyDays_def)
  have "snd (webhook_payment noFailure noRounding 5000
          (snd (webhook_payment noFailure noRounding 5000 payDb paymentEvent)) paymentEvent)
     \<noteq> snd (webhook_payment noFailure noRounding 5000 payDb paymentEvent)"
    using once twice by auto
  then show ?thesis using once twice dates later by simp
qed

text \<open>
  Claim C3, amended. Processing the same payment-confirmation event twice is not
  processing it once, and what the second processing does depends on the route that
  receives the event. In both cases the paying user exists, is referred by an active
  affiliate who has an affiliate record, and no write fails.

  On the payment webhook (\<^verbatim>\<open>POST /webhook/payment\<close>), the route that processes
  commissions: each delivery answers success with the commission, the double result of
  \<^verbatim>\<open>(amount * 20) / 100\<close>; each delivery adds that commission, in double arithmetic, to
  the affiliate's \<open>totalEarnings\<close> and \<open>pendingEarnings\<close>, so two deliveries of one
  transaction add it twice; and each delivery sets \<open>nextBillingDate\<close> to its own time
  plus 30 days.

  On \<open>processSuccessfulPayment\<close> (the PayPal success callback, the IPN handler and the
  manual route), with an amount that parses to a number: no delivery changes an affiliate
  record, so no commission is applied, once or twice; each delivery sets
  \<open>nextBillingDate\<close> to its own time plus 30 days; and after two deliveries the
  stored users are what a single delivery at the time of the second leaves.

  On neither route is \<open>nextBillingDate\<close> pushed by a further 30 days: the second
  delivery overwrites the date of the first.
\<close>

theorem webhook_payment_replay:
  assumes nofail: "\<not> fails ReferrerSave" "\<not> fails AffiliateSave" "\<not> fails UserSave"
    and ev: "ev_userId ev = Some uid" "ev_amount ev = Some amount"
      "ev_transactionId ev = Some txn" "amount \<noteq> 0" "txn \<noteq> []"
    and u: "findBy user_id uid (users d) = Some u" "referredBy u = Some rid"
    and ref: "findBy user_id rid (users d) = Some referrer" "hasAffiliateAccess referrer"
    and aff: "findBy aff_user rid (affiliates d) = Some aff"
  shows "fst (webhook_payment fails fl ta d ev) = PaymentOk True (fl (fl (amount * 20) / 100))
    \<and> fst (webhook_payment fails fl tb (snd (webhook_payment fails fl ta d ev)) ev)
        = PaymentOk True (fl (fl (amount * 20) / 100))
    \<and> map_option totalEarnings
        (findBy aff_user rid (affiliates (snd (webhook_payment fails fl ta d ev))))
        = Some (fl (totalEarnings aff + fl (fl (amount * 20) / 100)))
    \<and> map_option totalEarnings (findBy aff_user rid (affiliates
          (snd (webhook_payment fails fl tb (snd (webhook_payment fails fl ta d ev)) ev))))
        = Some (fl (fl (totalEarnings aff + fl (fl (amount * 20) / 100))
                    + fl (fl (amount * 20) / 100)))
    \<and> map_option pendingEarnings (findBy aff_user rid (affiliates
          (snd (webhook_payment fails fl tb (snd (webhook_payment fails fl ta d ev)) ev))))
        = Some (fl (fl (pendingEarnings aff + fl (fl (amount * 20) / 100))
                    + fl (fl (amount * 20) / 100)))
    \<and> map_option (\<lambda>x. nextBillingDate (subscription x)) (findBy user_id uid (users
          (snd (webhook_payment fails fl tb (snd (webhook_payment fails fl ta d ev)) ev))))
        = Some (Some (tb + thirtyDays))
    \<and> affiliates (snd (processSuccessfulPayment gwa ta d uid (Some amount))) = affiliates d
    \<and> affiliates (snd (processSuccessfulPayment gwb tb
          (snd (processSuccessfulPayment gwa ta d uid (Some amount))) uid (Some amount)))
        = affiliates d
    \<and> map_option (\<lambda>x. nextBillingDate (subscription x)) (findBy user_id uid (users
          (snd (processSuccessfulPayment gwb tb
             (snd (processSuccessfulPayment gwa ta d uid (Some amount))) uid (Some amount)))))
        = Some (Some (tb + thirtyDays))
    \<and> users (snd (processSuccessfulPayment gwb tb
          (snd (processSuccessfulPayment gwa ta d uid (Some amount))) uid (Some amount)))
        = users (snd (processSuccessfulPayment gwb tb d uid (Some amount)))"
proof -
  let ?c = "fl (fl (amount * 20) / 100)"
  obtain d1 u1 referrer1 aff1 where
    s1: "webhook_payment fails fl ta d ev = (PaymentOk True ?c, d1)"
    and u1: "findBy user_id uid (users d1) = Some u1" "referredBy u1 = Some rid"
    and r1: "findBy user_id rid (users d1) = Some referrer1" "hasAffiliateAccess referrer1"
    and a1: "findBy aff_user rid (affiliates d1) = Some aff1"
      "totalEarnings aff1 = fl (totalEarnings aff + ?c)"
      "pendingEarnings aff1 = fl (pendingEarnings aff + ?c)"
    using webhook_payment_ok [OF nofail ev u ref aff, of fl ta] by blast
  obtain d2 u2 aff2 where
    s2: "webhook_payment fails fl tb d1 ev = (PaymentOk True ?c, d2)"
    and u2: "findBy user_id uid (users d2) = Some u2"
      "nextBillingDate (subscription u2) = Some (tb + thirtyDays)"
    and a2: "findBy aff_user rid (affiliates d2) = Some aff2"
      "totalEarnings aff2 = fl (totalEarnings aff1 + ?c)"
      "pendingEarnings aff2 = fl (pendingEarnings aff1 + ?c)"
    using webhook_payment_ok [OF nofail ev u1 r1 a1(1), of fl tb] by blast
  have webhook: "fst (webhook_payment fails fl ta d ev) = PaymentOk True ?c
    \<and> fst (webhook_payment fails fl tb (snd (webhook_payment fails fl ta d ev)) ev)
        = PaymentOk True ?c
    \<and> map_option totalEarnings
        (findBy aff_user rid (affiliates (snd (webhook_payment fails fl ta d ev))))
        = Some (fl (totalEarnings aff + ?c))
    \<and> map_option totalEarnings (findBy aff_user rid (affiliates
          (snd (webhook_payment fails fl tb (snd (webhook_payment fails fl ta d ev)) ev))))
        = Some (fl (fl (totalEarnings aff + ?c) + ?c))
    \<and> map_option pendingEarnings (findBy aff_user rid (affiliates
          (snd (webhook_payment fails fl tb (snd (webhook_payment fails fl ta d ev)) ev))))
        = Some (fl (fl (pendingEarnings aff + ?c) + ?c))
    \<and> map_option (\<lambda>x. nextBillingDate (subscription x)) (findBy user_id uid (users
          (snd (webhook_payment fails fl tb (snd (webhook_payment fails fl ta d ev)) ev))))
        = Some (Some (tb + thirtyDays))"
    using s1 s2 a1 u2 a2 by simp
  let ?p = "if 999 / 100 \<le> amount then Pro else Starter"
  let ?m = "Some (if 999 / 100 \<le> amount then 5 else 1 :: int)"
  let ?ua = "u\<lparr>subscription := (subscription u)
                 \<lparr>plan := ?p, status := Active, price := amount,
                  nextBillingDate := Some (ta + thirtyDays), maxInstances := ?m\<rparr>\<rparr>"
  let ?ub = "u\<lparr>subscription := (subscription u)
                 \<lparr>plan := ?p, status := Active, price := amount,
                  nextBillingDate := Some (tb + thirtyDays), maxInstances := ?m\<rparr>\<rparr>"
  let ?da = "snd (processSuccessfulPayment gwa ta d uid (Some amount))"
  have uid: "user_id u = uid" using u(1) by (rule findBy_key)
  have pa: "users ?da = save_doc user_id ?ua (users d)" "affiliates ?da = affiliates d"
    using processSuccessfulPayment_stored [OF u(1), of gwa ta amount] by simp_all
  have found: "findBy user_id uid (users ?da) = Some ?ua"
    using findBy_save_same [of user_id ?ua "users d"] uid pa(1) by simp
  have pb: "users (snd (processSuccessfulPayment gwb tb ?da uid (Some amount)))
              = save_doc user_id ?ub (users ?da)"
    "affiliates (snd (processSuccessfulPayment gwb tb ?da uid (Some amount))) = affiliates ?da"
    using processSuccessfulPayment_stored [OF found, of gwb tb amount] by simp_all
  have twice: "save_doc user_id ?ub (users ?da) = save_doc user_id ?ub (users d)"
    unfolding pa(1) by (rule save_doc_twice) simp
  have direct: "users (snd (processSuccessfulPayment gwb tb d uid (Some amount)))
                  = save_doc user_id ?ub (users d)"
    using processSuccessfulPayment_stored [OF u(1), of gwb tb amount] by simp
  have date: "map_option (\<lambda>x. nextBillingDate (subscription x))
      (findBy user_id uid (save_doc user_id ?ub (users d))) = Some (Some (tb + thirtyDays))"
    using findBy_save_same [of user_id ?ub "users d"] uid by simp
  have paypal: "affiliates ?da = affiliates d
    \<and> affiliates (snd (processSuccessfulPayment gwb tb ?da uid (Some amount))) = affiliates d
    \<and> map_option (\<lambda>x. nextBillingDate (subscription x)) (findBy user_id uid (users
          (snd (processSuccessfulPayment gwb tb ?da uid (Some amount)))))
        = Some (Some (tb + thirtyDays))
    \<and> users (snd (processSuccessfulPayment gwb tb ?da uid (Some amount)))
        = users (snd (processSuccessfulPayment gwb tb d uid (Some amount)))"
    using pa(2) pb twice direct date by simp
  show ?thesis using webhook paypal by blast
qed

theorem webhook_payment_replay_witness:
  "\<not> noFailure ReferrerSave \<and> \<not> noFailure AffiliateSave \<and> \<not> noFailure UserSave
   \<and> ev_userId paymentEvent = Some 1 \<and> ev_amount paymentEvent = Some 100
   \<and> ev_transactionId paymentEvent = Some ''tx1'' \<and> (100 :: rat) \<noteq> 0 \<and> ''tx1'' \<noteq> []
   \<and> findBy user_id 1 (users payDb) = Some payer \<and> referredBy payer = Some 2
   \<and> findBy user_id 2 (users payDb) = Some referrerUser \<and> hasAffiliateAccess referrerUser
   \<and> findBy aff_user 2 (affiliates payDb) = Some referrerAffiliate
   \<and> fst (webhook_payment noFailure noRounding 65000
            (snd (webhook_payment noFailure noRounding 5000 payDb paymentEvent)) paymentEvent)
       = PaymentOk True 20
   \<and> map_option totalEarnings (findBy aff_user 2 (affiliates
          (snd (webhook_payment noFailure noRounding 5000 payDb paymentEvent)))) = Some 20
   \<and> map_option totalEarnings (findBy aff_user 2 (affiliates
          (snd (webhook_payment noFailure noRounding 65000
             (snd (webhook_payment noFailure noRounding 5000 payDb paymentEvent))
             paymentEvent))))
       = Some 40
   \<and> map_option (\<lambda>x. nextBillingDate (subscription x)) (findBy user_id 1 (users
          (snd (webhook_payment noFailure noRounding 65000
             (snd (webhook_payment noFailure noRounding 5000 payDb paymentEvent))
             paymentEvent))))
       = Some (Some 2592065000)
   \<and> affiliates (snd (processSuccessfulPayment (\<lambda>_. True) 65000
          (snd (processSuccessfulPayment (\<lambda>_. True) 5000 payDb 1 (Some 100))) 1 (Some 100)))
       = affiliates payDb
   \<and> map_option (\<lambda>x. nextBillingDate (subscription x)) (findBy user_id 1 (users
          (snd (processSuccessfulPayment (\<lambda>_. True) 65000
             (snd (processSuccessfulPayment (\<lambda>_. True) 5000 payDb 1 (Some 100))) 1
             (Some 100)))))
       = Some (Some 2592065000)
   \<and> users (snd (processSuccessfulPayment (\<lambda>_. True) 65000
          (snd (processSuccessfulPayment (\<lambda>_. True) 5000 payDb 1 (Some 100))) 1 (Some 100)))
       = users (snd (processSuccessfulPayment (\<lambda>_. True) 65000 payDb 1 (Some 100)))"
proof -
  have h: "\<not> noFailure ReferrerSave" "\<not> noFailure AffiliateSave" "\<not> noFailure UserSave"
    "ev_userId paymentEvent = Some 1" "ev_amount paymentEvent = Some 100"
    "ev_transactionId paymentEvent = Some ''tx1''" "(100 :: rat) \<noteq> 0" "''tx1'' \<noteq> []"
    "findBy user_id 1 (users payDb) = Some payer" "referredBy payer = Some 2"
    "findBy user_id 2 (users payDb) = Some referrerUser" "hasAffiliateAccess referrerUser"
    "findBy aff_user 2 (affiliates payDb) = Some referrerAffiliate"
    by (simp_all add: input_defs noFailure_def findBy_def hasAffiliateAccess_def)
  have c: "noRounding (noRounding (100 * 20) / 100) = 20"
    "noRounding (totalEarnings referrerAffiliate + 20) = 20"
    "noRounding (pendingEarnings referrerAffiliate + 20) = 20"
    "noRounding (20 + 20) = 40" "65000 + thirtyDays = 2592065000"
    by (simp_all add: noRounding_def referrerAffiliate_def thirtyDays_def)
  note t = webhook_payment_replay [OF h, of noRounding 5000 65000 "\<lambda>_. True" "\<lambda>_. True",
      unfolded c]
  show ?thesis
    using h t by blast
qed

lemma applyCommission_failed:
  "fails AffiliateSave \<Longrightarrow> fst (applyCommission fails fl d u referrer aff amount txn) = None"
  by (simp add: applyCommission_def Let_def)

lemma processAffiliateCommission_failed:
  "fails AffiliateSave \<Longrightarrow> fst (processAffiliateCommission fails fl d u amount txn) = None"
  by (simp add: processAffiliateCommission_def applyCommission_failed Let_def
      split: option.splits)

lemma applyCommission_subscriptions:
  assumes ref: "findBy user_id rid (users d) = Some referrer"
  shows "map_option subscription (findBy user_id k
           (users (snd (applyCommission fails fl d u referrer aff amount txn))))
         = map_option subscription (findBy user_id k (users d))"
proof -
  let ?r' = "referrer\<lparr>activeReferrals := activeReferrals referrer + 1\<rparr>"
  have rid: "user_id referrer = rid" using ref by (rule findBy_key)
  have "map_option subscription (findBy user_id k (save_doc user_id ?r' (users d)))
          = map_option subscription (findBy user_id k (users d))"
  proof (cases "k = rid")
    case True
    then show ?thesis
      using findBy_save_same [of user_id ?r' "users d"] rid ref by simp
  next
    case False
    then show ?thesis
      using findBy_save_other [of k user_id ?r' "users d"] rid by simp
  qed
  then show ?thesis by (simp add: applyCommission_def Let_def)
qed

lemma processAffiliateCommission_subscriptions:
  "map_option subscription (findBy user_id k
     (users (snd (processAffiliateCommission fails fl d u amount txn))))
   = map_option subscription (findBy user_id k (users d))"
proof (cases "referredBy u")
  case None
  then show ?thesis by (simp add: processAffiliateCommission_def)
next
  case (Some rid)
  show ?thesis
  proof (cases "findBy user_id rid (users d)")
    case None
    then show ?thesis using Some by (simp add: processAffiliateCommission_def)
  next
    case found: (Some referrer)
    have a: "map_option subscription (findBy user_id k
               (users (snd (applyCommission fails fl d u referrer aff amount txn))))
             = map_option subscription (findBy user_id k (users d))" for aff
      using applyCommission_subscriptions [of rid d referrer k fails fl u aff amount txn]
        found by simp
    show ?thesis
      using Some found
      by (simp add: processAffiliateCommission_def a split: option.splits)
  qed
qed

lemma webhook_payment_aborted:
  assumes "fails UserSave"
  shows "fst (webhook_payment fails fl now d ev) \<in> {MissingFields, UserNotFound, PaymentError}
    \<and> map_option subscription
          (findBy user_id k (users (snd (webhook_payment fails fl now d ev))))
        = map_option subscription (findBy user_id k (users d))"
  using assms
  by (simp add: webhook_payment_def Let_def split_beta processAffiliateCommission_subscriptions
      split: option.splits)

lemma webhook_payment_commits:
  assumes "\<not> fails UserSave"
    and ev: "ev_userId ev = Some uid" "ev_amount ev = Some amount" "amount \<noteq> 0"
      "ev_transactionId ev = Some txn" "txn \<noteq> []"
    and u: "findBy user_id uid (users d) = Some u"
  shows "(\<exists>p c. fst (webhook_payment fails fl now d ev) = PaymentOk p c)
    \<and> (fails AffiliateSave \<longrightarrow> fst (webhook_payment fails fl now d ev) = PaymentOk False 0)
    \<and> findBy user_id uid (users (snd (webhook_payment fails fl now d ev)))
        = Some (u\<lparr>subscription := (subscription u)
                     \<lparr>nextBillingDate := Some (now + thirtyDays)\<rparr>\<rparr>)"
proof -
  let ?u1 = "u\<lparr>subscription := (subscription u)
                 \<lparr>nextBillingDate := Some (now + thirtyDays)\<rparr>\<rparr>"
  have uid: "user_id ?u1 = uid" using u by (simp add: findBy_key)
  have saved: "findBy user_id uid (save_doc user_id ?u1 xs) = Some ?u1" for xs
    using findBy_save_same [of user_id ?u1 xs] uid by simp
  have failed: "fails AffiliateSave \<Longrightarrow>
      fst (processAffiliateCommission fails fl d ?u1 amount (TxnString txn)) = None"
    by (rule processAffiliateCommission_failed)
  show ?thesis
    using assms(1) ev u saved failed
    by (simp add: webhook_payment_def Let_def split_beta)
qed

lemma convert_to_paid_aborted:
  assumes "fails StartPaidSave \<or> fails UserSave"
  shows "fst (convert_to_paid fails fl now d uid) \<in> {UserNotFound, NoActiveTrial, PaymentError}
    \<and> map_option subscription
          (findBy user_id k (users (snd (convert_to_paid fails fl now d uid))))
        = map_option subscription (findBy user_id k (users d))"
  using assms
  by (auto simp: convert_to_paid_def Let_def split_beta processAffiliateCommission_subscriptions
      split: option.splits)

lemma convert_to_paid_commits:
  assumes "\<not> fails StartPaidSave" "\<not> fails UserSave"
    and u: "findBy user_id uid (users d) = Some u" "status (subscription u) = Trial"
  shows "(\<exists>p c. fst (convert_to_paid fails fl now d uid) = PaymentOk p c)
    \<and> (fails AffiliateSave \<longrightarrow> fst (convert_to_paid fails fl now d uid) = PaymentOk False 0)
    \<and> findBy user_id uid (users (snd (convert_to_paid fails fl now d uid)))
        = Some (u\<lparr>subscription := (subscription u)\<lparr>status := Active,
                     nextBillingDate := Some (now + thirtyDays)\<rparr>\<rparr>)"
proof -
  let ?u1 = "u\<lparr>subscription := (subscription u)\<lparr>status := Active,
                 nextBillingDate := Some (now + thirtyDays)\<rparr>\<rparr>"
  have uid: "user_id ?u1 = uid" using u by (simp add: findBy_key)
  have saved: "findBy user_id uid (save_doc user_id ?u1 xs) = Some ?u1" for xs
    using findBy_save_same [of user_id ?u1 xs] uid by simp
  have failed: "fails AffiliateSave \<Longrightarrow>
      fst (processAffiliateCommission fails fl d ?u1 (price (subscription u))
             (TxnGenerated uid now)) = None"
    by (rule processAffiliateCommission_failed)
  show ?thesis
    using assms(1,2) u saved failed uid
    by (simp add: convert_to_paid_def Let_def split_beta)
qed

text \<open>
  Claim C4, as stated, fails: in the conversion of a referred user's trial, with the
  save of the affiliate record failing, the failure is caught inside
  \<open>processAffiliateCommission\<close> and the route does not abort: it answers success with
  no commission processed, the subscription is stored as active, and the affiliate
  collection holds no commission for it. (The commission that the code computes here is
  dropped with the failed save, so the rounding has no part in the result.)
\<close>

theorem convert_to_paid_commission_failure:
  "onlyFails AffiliateSave AffiliateSave
   \<and> fst (convert_to_paid (onlyFails AffiliateSave) noRounding 5000 payDb 1)
       = PaymentOk False 0
   \<and> map (\<lambda>u. status (subscription u))
         (users (snd (convert_to_paid (onlyFails AffiliateSave) noRounding 5000 payDb 1)))
       = [Active, Active]
   \<and> map (\<lambda>u. status (subscription u)) (users payDb) = [Trial, Active]
   \<and> affiliates (snd (convert_to_paid (onlyFails AffiliateSave) noRounding 5000 payDb 1))
       = [referrerAffiliate]
   \<and> referrals referrerAffiliate = []"
  by (simp add: convert_to_paid_def processAffiliateCommission_def applyCommission_def
      input_defs onlyFails_def findBy_def save_doc_def hasAffiliateAccess_def Let_def)

text \<open>
  Claim C4, amended. Payment processing is all-or-nothing for the paying user's own
  document only. In the payment webhook and in the conversion route: when a save of the
  paying user fails, the route answers with an error and the stored subscription of
  every user is as before; when the saves of the paying user succeed (and the request is
  well formed: the fields are present and the user exists, for the conversion in status
  trial), the route answers success and the paying user's subscription is stored with
  \<open>nextBillingDate = now + 30 days\<close> (and status active in the conversion), whether
  or not the commission was recorded: a failure inside the commission processing is
  caught there, and the answer then reports that no commission was processed.
\<close>

theorem payment_abort_and_commit:
  "(fails UserSave \<longrightarrow>
      fst (webhook_payment fails fl now d ev) \<in> {MissingFields, UserNotFound, PaymentError}
      \<and> map_option subscription
            (findBy user_id k (users (snd (webhook_payment fails fl now d ev))))
          = map_option subscription (findBy user_id k (users d)))
   \<and> (\<not> fails UserSave \<and> ev_userId ev = Some uid \<and> ev_amount ev = Some amount
        \<and> amount \<noteq> 0 \<and> ev_transactionId ev = Some txn \<and> txn \<noteq> []
        \<and> findBy user_id uid (users d) = Some u \<longrightarrow>
      (\<exists>p c. fst (webhook_payment fails fl now d ev) = PaymentOk p c)
      \<and> (fails AffiliateSave
           \<longrightarrow> fst (webhook_payment fails fl now d ev) = PaymentOk False 0)
      \<and> map_option (\<lambda>x. nextBillingDate (subscription x))
            (findBy user_id uid (users (snd (webhook_payment fails fl now d ev))))
          = Some (Some (now + thirtyDays)))
   \<and> (fails StartPaidSave \<or> fails UserSave \<longrightarrow>
      fst (convert_to_paid fails fl now d uid')
        \<in> {UserNotFound, NoActiveTrial, PaymentError}
      \<and> map_option subscription
            (findBy user_id k (users (snd (convert_to_paid fails fl now d uid'))))
          = map_option subscription (findBy user_id k (users d)))
   \<and> (\<not> fails StartPaidSave \<and> \<not> fails UserSave
        \<and> findBy user_id uid' (users d) = Some u' \<and> status (subscription u') = Trial \<longrightarrow>
      (\<exists>p c. fst (convert_to_paid fails fl now d uid') = PaymentOk p c)
      \<and> (fails AffiliateSave
           \<longrightarrow> fst (convert_to_paid fails fl now d uid') = PaymentOk False 0)
      \<and> map_option (\<lambda>x. status (subscription x))
            (findBy user_id uid' (users (snd (convert_to_paid fails fl now d uid'))))
          = Some Active
      \<and> map_option (\<lambda>x. nextBillingDate (subscription x))
            (findBy user_id uid' (users (snd (convert_to_paid fails fl now d uid'))))
          = Some (Some (now + thirtyDays)))"
proof -
  have w_abort: "fails UserSave \<Longrightarrow>
      fst (webhook_payment fails fl now d ev) \<in> {MissingFields, UserNotFound, PaymentError}
      \<and> map_option subscription
            (findBy user_id k (users (snd (webhook_payment fails fl now d ev))))
          = map_option subscription (findBy user_id k (users d))"
    by (rule webhook_payment_aborted)
  have c_abort: "fails StartPaidSave \<or> fails UserSave \<Longrightarrow>
      fst (convert_to_paid fails fl now d uid')
        \<in> {UserNotFound, NoActiveTrial, PaymentError}
      \<and> map_option subscription
            (findBy user_id k (users (snd (convert_to_paid fails fl now d uid'))))
          = map_option subscription (findBy user_id k (users d))"
    by (rule convert_to_paid_aborted)
  have w_commit: "\<not> fails UserSave \<and> ev_userId ev = Some uid \<and> ev_amount ev = Some amount
        \<and> amount \<noteq> 0 \<and> ev_transactionId ev = Some txn \<and> txn \<noteq> []
        \<and> findBy user_id uid (users d) = Some u \<Longrightarrow>
      (\<exists>p c. fst (webhook_payment fails fl now d ev) = PaymentOk p c)
      \<and> (fails AffiliateSave
           \<longrightarrow> fst (webhook_payment fails fl now d ev) = PaymentOk False 0)
      \<and> map_option (\<lambda>x. nextBillingDate (subscription x))
            (findBy user_id uid (users (snd (webhook_payment fails fl now d ev))))
          = Some (Some (now + thirtyDays))"
    using webhook_payment_commits [of fails ev uid amount txn d u fl now] by auto
  have c_commit: "\<not> fails StartPaidSave \<and> \<not> fails UserSave
        \<and> findBy user_id uid' (users d) = Some u' \<and> status (subscription u') = Trial \<Longrightarrow>
      (\<exists>p c. fst (convert_to_paid fails fl now d uid') = PaymentOk p c)
      \<and> (fails AffiliateSave
           \<longrightarrow> fst (convert_to_paid fails fl now d uid') = PaymentOk False 0)
      \<and> map_option (\<lambda>x. status (subscription x))
            (findBy user_id uid' (users (snd (convert_to_paid fails fl now d uid'))))
          = Some Active
      \<and> map_option (\<lambda>x. nextBillingDate (subscription x))
            (findBy user_id uid' (users (snd (convert_to_paid fails fl now d uid'))))
          = Some (Some (now + thirtyDays))"
    using convert_to_paid_commits [of fails uid' d u' fl now] by auto
  show ?thesis
    using w_abort c_abort w_commit c_commit by blast
qed

theorem payment_abort_and_commit_witness:
  "onlyFails UserSave UserSave
   \<and> fst (webhook_payment (onlyFails UserSave) noRounding 5000 payDb paymentEvent)
       \<in> {MissingFields, UserNotFound, PaymentError}
   \<and> map_option subscription (findBy user_id 1
          (users (snd (webhook_payment (onlyFails UserSave) noRounding 5000 payDb
             paymentEvent))))
       = map_option subscription (findBy user_id 1 (users payDb))
   \<and> fst (convert_to_paid (onlyFails UserSave) noRounding 5000 payDb 1)
       \<in> {UserNotFound, NoActiveTrial, PaymentError}
   \<and> map_option subscription (findBy user_id 1
          (users (snd (convert_to_paid (onlyFails UserSave) noRounding 5000 payDb 1))))
       = map_option subscription (findBy user_id 1 (users payDb))
   \<and> \<not> onlyFails AffiliateSave UserSave \<and> \<not> onlyFails AffiliateSave StartPaidSave
   \<and> onlyFails AffiliateSave AffiliateSave
   \<and> ev_userId paymentEvent = Some 1 \<and> ev_amount paymentEvent = Some 100
   \<and> (100 :: rat) \<noteq> 0 \<and> ev_transactionId paymentEvent = Some ''tx1'' \<and> ''tx1'' \<noteq> []
   \<and> findBy user_id 1 (users payDb) = Some payer \<and> status (subscription payer) = Trial
   \<and> fst (webhook_payment (onlyFails AffiliateSave) noRounding 5000 payDb paymentEvent)
       = PaymentOk False 0
   \<and> map_option (\<lambda>x. nextBillingDate (subscription x)) (findBy user_id 1
        (users (snd (webhook_payment (onlyFails AffiliateSave) noRounding 5000 payDb
           paymentEvent))))
       = Some (Some 2592005000)
   \<and> fst (convert_to_paid (onlyFails AffiliateSave) noRounding 5000 payDb 1)
       = PaymentOk False 0
   \<and> map_option (\<lambda>x. status (subscription x)) (findBy user_id 1
        (users (snd (convert_to_paid (onlyFails AffiliateSave) noRounding 5000 payDb 1))))
       = Some Active
   \<and> map_option (\<lambda>x. nextBillingDate (subscription x)) (findBy user_id 1
        (users (snd (convert_to_paid (onlyFails AffiliateSave) noRounding 5000 payDb 1))))
       = Some (Some 2592005000)"
proof -
  have f: "onlyFails UserSave UserSave" "\<not> onlyFails AffiliateSave UserSave"
    "\<not> onlyFails AffiliateSave StartPaidSave" "onlyFails AffiliateSave AffiliateSave"
    by (simp_all add: onlyFails_def)
  have e: "ev_userId paymentEvent = Some 1" "ev_amount paymentEvent = Some 100"
    "ev_transactionId paymentEvent = Some ''tx1''"
    by (simp_all add: paymentEvent_def)
  have u: "findBy user_id 1 (users payDb) = Some payer" "status (subscription payer) = Trial"
    by (simp_all add: input_defs findBy_def)
  show ?thesis
    using f e u
      payment_abort_and_commit [where fails = "onlyFails UserSave" and fl = noRounding
        and now = 5000 and d = payDb and ev = paymentEvent and k = 1 and uid' = 1]
      payment_abort_and_commit [where fails = "onlyFails AffiliateSave" and fl = noRounding
        and now = 5000 and d = payDb and ev = paymentEvent and uid = 1 and amount = 100
        and txn = "''tx1''" and u = payer and uid' = 1 and u' = payer]
    by (simp add: thirtyDays_def)
qed

end
